theory Spec2Isabelle
  imports Main "HOL-Library.AList"
begin

section \<open>Identifiers: \<open>bson.ObjectId\<close>\<close>

text \<open>
  The routes validate an external identifier with \<open>ObjectId.is_valid(user_id)\<close> and parse
  it with \<open>ObjectId(user_id)\<close>. Both belong to the \<open>bson\<close> package: for a \<open>str\<close> the
  constructor demands \<open>len(oid) == 24\<close> and then takes \<open>bytes.fromhex(oid)\<close>, and
  \<open>is_valid\<close> is "not empty and the constructor does not raise". \<open>bytes.fromhex\<close> reads
  pairs of hexadecimal digits of either case and skips ASCII white space in front of a pair.
  An ObjectId is modelled by its bytes, each a natural number below 256. Strings are byte
  strings; a character outside ASCII is no hexadecimal digit and no white space, so it makes
  \<open>fromhex\<close> fail here as it does in Python.
\<close>

type_synonym objectid = "nat list"

definition hex_table :: "(char \<times> nat) list" where
  "hex_table =
     [(CHR ''0'', 0), (CHR ''1'', 1), (CHR ''2'', 2), (CHR ''3'', 3), (CHR ''4'', 4),
      (CHR ''5'', 5), (CHR ''6'', 6), (CHR ''7'', 7), (CHR ''8'', 8), (CHR ''9'', 9),
      (CHR ''a'', 10), (CHR ''b'', 11), (CHR ''c'', 12), (CHR ''d'', 13), (CHR ''e'', 14),
      (CHR ''f'', 15),
      (CHR ''A'', 10), (CHR ''B'', 11), (CHR ''C'', 12), (CHR ''D'', 13), (CHR ''E'', 14),
      (CHR ''F'', 15)]"

definition digit_value :: "char \<Rightarrow> nat option" where
  "digit_value c = map_of hex_table c"

definition isspace :: "char \<Rightarrow> bool" where
  "isspace c = (c \<in> set [CHR 0x09, CHR 0x0A, CHR 0x0B, CHR 0x0C, CHR 0x0D, CHR 0x20])"

fun fromhex :: "string \<Rightarrow> nat list option" where
  "fromhex [] = Some []"
| "fromhex [c] = (if isspace c then Some [] else None)"
| "fromhex (c # d # cs) =
     (if isspace c then fromhex (d # cs)
      else (case digit_value c of
              None \<Rightarrow> None
            | Some hi \<Rightarrow>
                (case digit_value d of
                   None \<Rightarrow> None
                 | Some lo \<Rightarrow> map_option ((#) (16 * hi + lo)) (fromhex cs))))"

definition is_valid :: "string \<Rightarrow> bool" where
  "is_valid oid = (oid \<noteq> [] \<and> length oid = 24 \<and> fromhex oid \<noteq> None)"

text \<open>\<open>ObjectId(oid)\<close> for a string that \<open>is_valid\<close> accepted; the routes call it only then.\<close>

definition ObjectId :: "string \<Rightarrow> objectid" where
  "ObjectId oid = (case fromhex oid of Some bs \<Rightarrow> bs | None \<Rightarrow> [])"

definition hexdigits :: string where
  "hexdigits = ''0123456789abcdef''"

text \<open>\<open>str(oid)\<close>: two lowercase hexadecimal digits per byte.\<close>

fun str_oid :: "objectid \<Rightarrow> string" where
  "str_oid [] = []"
| "str_oid (b # bs) = hexdigits ! (b div 16 mod 16) # hexdigits ! (b mod 16) # str_oid bs"


section \<open>Documents and the users collection\<close>

text \<open>
  A document is a Python \<open>dict\<close> of string fields, kept as an association list in field
  order. A stored user is its \<open>_id\<close> (unique in the collection, as MongoDB's index on
  \<open>_id\<close> has it) together with the rest of its fields. The collection is the list of stored
  users in storage order. Every call on the collection and every call of the hasher is
  recorded in a trace, so that a statement can say that a request did or did not reach the
  store.
\<close>

type_synonym document = "(string \<times> string) list"

type_synonym entry = "objectid \<times> document"

datatype event = Find | FindOne | InsertOne | UpdateOne | DeleteOne | HashPassword

record world =
  users :: "entry list"
  trace :: "event list"

definition log :: "event \<Rightarrow> world \<Rightarrow> world" where
  "log e w = w\<lparr>trace := trace w @ [e]\<rparr>"

text \<open>The three filters the routes pass to the collection.\<close>

definition by_id :: "objectid \<Rightarrow> entry \<Rightarrow> bool" where
  "by_id k x = (fst x = k)"

definition by_email :: "string \<Rightarrow> entry \<Rightarrow> bool" where
  "by_email e x = (map_of (snd x) ''email'' = Some e)"

definition by_email_ne_id :: "string \<Rightarrow> objectid \<Rightarrow> entry \<Rightarrow> bool" where
  "by_email_ne_id e k x = (map_of (snd x) ''email'' = Some e \<and> fst x \<noteq> k)"

text \<open>\<open>find({}).to_list(length=None)\<close>: every document, in storage order.\<close>

definition find_all :: "world \<Rightarrow> entry list \<times> world" where
  "find_all w = (users w, log Find w)"

text \<open>\<open>find_one(filter)\<close>: the first document the filter matches, or \<open>None\<close>.\<close>

definition find_one :: "(entry \<Rightarrow> bool) \<Rightarrow> world \<Rightarrow> entry option \<times> world" where
  "find_one q w = (List.find q (users w), log FindOne w)"

text \<open>
  \<open>insert_one(doc)\<close>: the driver draws a new ObjectId \<open>k\<close> (a parameter here) and the
  document is appended under it. The unique index on \<open>_id\<close> refuses a key that is taken.
\<close>

definition insert_one :: "objectid \<Rightarrow> document \<Rightarrow> world \<Rightarrow> objectid option \<times> world" where
  "insert_one k d w =
     (if k \<in> set (map fst (users w)) then (None, log InsertOne w)
      else (Some k, log InsertOne (w\<lparr>users := users w @ [(k, d)]\<rparr>)))"

text \<open>\<open>{"$set": fields}\<close>: each field is overwritten in place or added; the others stay.\<close>

fun set_fields :: "document \<Rightarrow> document \<Rightarrow> document" where
  "set_fields [] d = d"
| "set_fields (f # fs) d = set_fields fs (AList.update (fst f) (snd f) d)"

fun update_first :: "(entry \<Rightarrow> bool) \<Rightarrow> document \<Rightarrow> entry list \<Rightarrow> entry list" where
  "update_first q fs [] = []"
| "update_first q fs (x # xs) =
     (if q x then (fst x, set_fields fs (snd x)) # xs else x # update_first q fs xs)"

definition update_one :: "(entry \<Rightarrow> bool) \<Rightarrow> document \<Rightarrow> world \<Rightarrow> world" where
  "update_one q fs w = log UpdateOne (w\<lparr>users := update_first q fs (users w)\<rparr>)"

fun delete_first :: "(entry \<Rightarrow> bool) \<Rightarrow> entry list \<Rightarrow> entry list" where
  "delete_first q [] = []"
| "delete_first q (x # xs) = (if q x then xs else x # delete_first q xs)"

text \<open>\<open>delete_one(filter)\<close> removes the first match and reports how many it removed.\<close>

definition delete_one :: "(entry \<Rightarrow> bool) \<Rightarrow> world \<Rightarrow> nat \<times> world" where
  "delete_one q w =
     ((if List.find q (users w) = None then 0 else 1),
      log DeleteOne (w\<lparr>users := delete_first q (users w)\<rparr>))"


section \<open>Errors: \<open>utils/exceptions.py\<close>\<close>

text \<open>
  \<open>CustomHTTPException\<close> keeps \<open>message\<close>, \<open>resource\<close> and \<open>identifier\<close> and builds
  \<open>detail\<close> from them; \<open>resource\<close> and \<open>identifier\<close> default to \<open>None\<close>. The fields
  \<open>message\<close> and \<open>identifier\<close> are called \<open>exc_message\<close> and \<open>exc_identifier\<close> here:
  the response envelope has a \<open>message\<close> too, and \<open>identifier\<close> is a keyword of Isabelle.
  \<open>detail\<close> takes \<open>resource\<close> and \<open>identifier\<close> only where Python finds them true,
  that is neither \<open>None\<close> nor the empty string.
\<close>

record http_exception =
  status_code :: nat
  exc_message :: string
  resource :: "string option"
  exc_identifier :: "string option"

definition "context" :: "string \<Rightarrow> string option \<Rightarrow> document" where
  "context key v = (case v of None \<Rightarrow> [] | Some s \<Rightarrow> if s = [] then [] else [(key, s)])"

definition build_detail :: "http_exception \<Rightarrow> document" where
  "build_detail e =
     [(''message'', exc_message e)] @ context ''resource'' (resource e)
       @ context ''identifier'' (exc_identifier e)"

definition CustomHTTPException ::
  "nat \<Rightarrow> string \<Rightarrow> string option \<Rightarrow> string option \<Rightarrow> http_exception" where
  "CustomHTTPException sc m r i =
     \<lparr>status_code = sc, exc_message = m, resource = r, exc_identifier = i\<rparr>"

definition NotFoundException :: "string \<Rightarrow> string option \<Rightarrow> http_exception" where
  "NotFoundException r i =
     CustomHTTPException 404
       (r @ '' no encontrado'' @
          (case i of None \<Rightarrow> [] | Some s \<Rightarrow> if s = [] then [] else '' con identificador: '' @ s))
       (Some r) i"

definition AlreadyExistsException :: "string \<Rightarrow> string option \<Rightarrow> http_exception" where
  "AlreadyExistsException r i =
     CustomHTTPException 409
       (r @ '' ya existe'' @
          (case i of None \<Rightarrow> [] | Some s \<Rightarrow> if s = [] then [] else '' con: '' @ s))
       (Some r) i"

definition BadRequestException ::
  "string \<Rightarrow> string option \<Rightarrow> string option \<Rightarrow> http_exception" where
  "BadRequestException m r i = CustomHTTPException 400 m r i"

text \<open>
  What a route can end with besides a response: one of the classified exceptions, the
  driver's \<open>DuplicateKeyError\<close>, the \<open>ValueError\<close> of \<open>bcrypt.hashpw\<close>, or Python's
  \<open>TypeError\<close> when a route subscripts the \<open>None\<close> that a re-read returned. No route
  catches any of them.
\<close>

datatype failure = Raised http_exception | DuplicateKeyError | ValueError | TypeError


section \<open>The response envelope\<close>

datatype payload = Doc document | Docs "document list" | Counts "(string \<times> nat) list"

record response =
  success :: bool
  statusCode :: nat
  message :: string
  data :: payload
  count :: "nat option"

text \<open>
  Modelled from the spec: \<open>utils/response.py\<close> (\<open>success_response\<close>) is not among the
  sources. The spec's envelope builder wraps a successful result into the standard shape
  \<open>success\<close>, \<open>statusCode\<close>, \<open>message\<close>, \<open>data\<close>, and a List response carries in
  addition \<open>count\<close> equal to the length of \<open>data\<close>. The routes that name no
  \<open>status_code\<close> pass 200 here.
\<close>

definition success_response :: "payload \<Rightarrow> string \<Rightarrow> nat \<Rightarrow> response" where
  "success_response d m sc =
     \<lparr>success = True, statusCode = sc, message = m, data = d,
      count = (case d of Docs ds \<Rightarrow> Some (length ds) | _ \<Rightarrow> None)\<rparr>"

text \<open>
  Modelled from the spec: \<open>utils/middleware.py\<close> (\<open>setup_exception_handlers\<close>) is not
  among the sources. The spec's boundary layer turns a classified error into the envelope
  with \<open>success\<close> false, the error's status and message, and \<open>resource\<close> and
  \<open>identifier\<close>, where the error has them, verbatim in \<open>data\<close>.
\<close>

definition error_envelope :: "http_exception \<Rightarrow> response" where
  "error_envelope e =
     \<lparr>success = False, statusCode = status_code e, message = exc_message e,
      data = Doc (context ''resource'' (resource e) @ context ''identifier'' (exc_identifier e)),
      count = None\<rparr>"


section \<open>The routes: \<open>routes/user_routes.py\<close>\<close>

text \<open>
  \<open>hash_password\<close> draws a salt with \<open>bcrypt.gensalt()\<close> and returns
  \<open>bcrypt.hashpw(password, salt)\<close>. The library function and the salt drawn at this call
  are parameters; encoding to and from UTF-8 is the identity on byte strings.
  \<open>bcrypt.hashpw\<close> may raise instead of returning a digest: from version 5.0 on it raises
  \<open>ValueError\<close> for a password of more than 72 bytes, which \<open>UserCreate\<close> and
  \<open>UserUpdate\<close> admit (\<open>min_length=6\<close>, no upper bound). \<open>None\<close> is that exception;
  \<open>hash_password\<close> has no guard and lets it through.
\<close>

type_synonym hashpw = "string \<Rightarrow> string \<Rightarrow> string option"

definition hash_password :: "hashpw \<Rightarrow> string \<Rightarrow> string \<Rightarrow> string option" where
  "hash_password bcrypt salt password = bcrypt password salt"

text \<open>\<open>UserCreate\<close> and \<open>UserUpdate\<close> have the same three fields.\<close>

record user_create =
  name :: string
  email :: string
  password :: string

type_synonym user_update = user_create

definition model_dump :: "user_create \<Rightarrow> document" where
  "model_dump u = [(''name'', name u), (''email'', email u), (''password'', password u)]"

text \<open>
  \<open>d["hashed_password"] = hash_password(d.pop("password"))\<close>: the field \<open>password\<close>
  leaves the dict and, if the hasher returns, \<open>hashed_password\<close> enters it. \<open>pop\<close> raises
  \<open>KeyError\<close> on a missing key, which \<open>model_dump\<close> never produces; the model hashes the
  empty string there. The result is \<open>None\<close> when the hasher raised.
\<close>

definition with_hashed_password :: "hashpw \<Rightarrow> string \<Rightarrow> document \<Rightarrow> document option" where
  "with_hashed_password bcrypt salt d =
     (let popped = (case map_of d ''password'' of Some p \<Rightarrow> p | None \<Rightarrow> []);
          d1 = AList.delete ''password'' d
      in case hash_password bcrypt salt popped of
           None \<Rightarrow> None
         | Some digest \<Rightarrow> Some (AList.update ''hashed_password'' digest d1))"

text \<open>\<open>user["_id"] = str(user["_id"])\<close>: the document as a dict, its \<open>_id\<close> first, as text.\<close>

definition id_to_str :: "entry \<Rightarrow> document" where
  "id_to_str x = (''_id'', str_oid (fst x)) # snd x"

text \<open>Decimal text of a natural number, for the f-string of \<open>get_all_users\<close>.\<close>

fun str_nat :: "nat \<Rightarrow> string" where
  "str_nat n =
     (if n < 10 then [hexdigits ! n] else str_nat (n div 10) @ [hexdigits ! (n mod 10)])"

declare str_nat.simps [simp del]

definition get_all_users :: "world \<Rightarrow> (failure + response) \<times> world" where
  "get_all_users w =
     (let (found, w1) = find_all w;
          users = map id_to_str found
      in (Inr (success_response (Docs users)
                 (''Se encontraron '' @ str_nat (length users) @ '' usuarios'') 200), w1))"

definition create_user ::
  "hashpw \<Rightarrow> string \<Rightarrow> objectid \<Rightarrow> user_create \<Rightarrow> world \<Rightarrow> (failure + response) \<times> world" where
  "create_user bcrypt salt new_id user w =
     (let (existing_user, w1) = find_one (by_email (email user)) w
      in if existing_user \<noteq> None
         then (Inl (Raised (AlreadyExistsException ''Usuario''
                               (Some (''email '' @ email user)))), w1)
         else
           (let w2 = log HashPassword w1
            in case with_hashed_password bcrypt salt (model_dump user) of
                 None \<Rightarrow> (Inl ValueError, w2)
               | Some user_dict \<Rightarrow>
                   (let (inserted_id, w3) = insert_one new_id user_dict w2
                    in case inserted_id of
                         None \<Rightarrow> (Inl DuplicateKeyError, w3)
                       | Some k \<Rightarrow>
                           (let (created_user, w4) = find_one (by_id k) w3
                            in case created_user of
                                 None \<Rightarrow> (Inl TypeError, w4)
                               | Some x \<Rightarrow>
                                   (Inr (success_response (Doc (id_to_str x))
                                           ''Usuario creado exitosamente'' 201), w4)))))"

text \<open>The route's text for a malformed id; its accented letter is two bytes in UTF-8.\<close>

definition invalid_id_message :: string where
  "invalid_id_message = ''ID de usuario inv'' @ [CHR 0xC3, CHR 0xA1] @ ''lido''"

definition invalid_id :: "string \<Rightarrow> failure" where
  "invalid_id user_id = Raised (BadRequestException invalid_id_message None (Some user_id))"

definition get_user :: "string \<Rightarrow> world \<Rightarrow> (failure + response) \<times> world" where
  "get_user user_id w =
     (if \<not> is_valid user_id then (Inl (invalid_id user_id), w)
      else
        (let (user, w1) = find_one (by_id (ObjectId user_id)) w
         in case user of
              None \<Rightarrow> (Inl (Raised (NotFoundException ''Usuario'' (Some user_id))), w1)
            | Some x \<Rightarrow>
                (Inr (success_response (Doc (id_to_str x))
                        ''Usuario obtenido exitosamente'' 200), w1)))"

definition update_user ::
  "hashpw \<Rightarrow> string \<Rightarrow> string \<Rightarrow> user_update \<Rightarrow> world \<Rightarrow> (failure + response) \<times> world" where
  "update_user bcrypt salt user_id user_update w =
     (if \<not> is_valid user_id then (Inl (invalid_id user_id), w)
      else
        (let (existing_user, w1) = find_one (by_id (ObjectId user_id)) w
         in if existing_user = None
            then (Inl (Raised (NotFoundException ''Usuario'' (Some user_id))), w1)
            else
              (let (email_exists, w2) =
                     find_one (by_email_ne_id (email user_update) (ObjectId user_id)) w1
               in if email_exists \<noteq> None
                  then (Inl (Raised (AlreadyExistsException ''Usuario''
                                        (Some (''email '' @ email user_update)))), w2)
                  else
                    (let w3 = log HashPassword w2
                     in case with_hashed_password bcrypt salt (model_dump user_update) of
                          None \<Rightarrow> (Inl ValueError, w3)
                        | Some update_dict \<Rightarrow>
                            (let w4 = update_one (by_id (ObjectId user_id)) update_dict w3;
                                 (updated_user, w5) = find_one (by_id (ObjectId user_id)) w4
                             in case updated_user of
                                  None \<Rightarrow> (Inl TypeError, w5)
                                | Some x \<Rightarrow>
                                    (Inr (success_response (Doc (id_to_str x))
                                            ''Usuario actualizado exitosamente'' 200),
                                     w5))))))"

text \<open>
  \<open>delete_user\<close> awaits the store twice: the existence check, then \<open>delete_one\<close>. Between
  the two the request is suspended and other requests may change the collection;
  \<open>others\<close> is what they do to it meanwhile. A request that runs alone has \<open>others\<close> the
  identity.
\<close>

definition delete_user_among ::
  "(entry list \<Rightarrow> entry list) \<Rightarrow> string \<Rightarrow> world \<Rightarrow> (failure + response) \<times> world" where
  "delete_user_among others user_id w =
     (if \<not> is_valid user_id then (Inl (invalid_id user_id), w)
      else
        (let (existing_user, w1) = find_one (by_id (ObjectId user_id)) w
         in if existing_user = None
            then (Inl (Raised (NotFoundException ''Usuario'' (Some user_id))), w1)
            else
              (let w2 = w1\<lparr>users := others (users w1)\<rparr>;
                   (deleted_count, w3) = delete_one (by_id (ObjectId user_id)) w2
               in (Inr (success_response (Counts [(''deleted_count'', deleted_count)])
                          ''Usuario eliminado exitosamente'' 200), w3))))"

definition delete_user :: "string \<Rightarrow> world \<Rightarrow> (failure + response) \<times> world" where
  "delete_user user_id w = delete_user_among (\<lambda>us. us) user_id w"


section \<open>Sequences of requests and the store invariants\<close>

text \<open>
  The email values held by the stored users, one entry per document that has the field.
  \<open>unique_emails\<close> says that no value is held twice, \<open>unique_ids\<close> that no \<open>_id\<close> is.
\<close>

definition emails :: "entry list \<Rightarrow> string list" where
  "emails us = List.map_filter (\<lambda>x. map_of (snd x) ''email'') us"

definition unique_emails :: "entry list \<Rightarrow> bool" where
  "unique_emails us = distinct (emails us)"

definition unique_ids :: "entry list \<Rightarrow> bool" where
  "unique_ids us = distinct (map fst us)"

text \<open>
  \<open>user_shaped\<close>: every stored body has the fields \<open>name\<close>, \<open>email\<close> and
  \<open>hashed_password\<close>, in this order, and no other. Create writes such bodies.
\<close>

definition user_shaped :: "entry list \<Rightarrow> bool" where
  "user_shaped us =
     list_all (\<lambda>x. map fst (snd x) = [''name'', ''email'', ''hashed_password'']) us"

text \<open>
  A writing request with what its environment draws for it: the salt, and for a Create the
  ObjectId of the driver. \<open>serve_all\<close> serves requests one after the other, each on the store
  the previous one left.
\<close>

datatype request =
    Create string objectid user_create
  | Update string string user_update
  | Delete string

fun serve :: "hashpw \<Rightarrow> request \<Rightarrow> world \<Rightarrow> (failure + response) \<times> world" where
  "serve bcrypt (Create salt new_id user) w = create_user bcrypt salt new_id user w"
| "serve bcrypt (Update salt user_id user) w = update_user bcrypt salt user_id user w"
| "serve bcrypt (Delete user_id) w = delete_user user_id w"

fun serve_all :: "hashpw \<Rightarrow> request list \<Rightarrow> world \<Rightarrow> world" where
  "serve_all bcrypt [] w = w"
| "serve_all bcrypt (r # rs) w = serve_all bcrypt rs (snd (serve bcrypt r w))"

text \<open>
  The key format in the specification's words, for comparison with \<open>is_valid\<close>: 24
  characters, each a lowercase hexadecimal digit.
\<close>

definition spec_key_format :: "string \<Rightarrow> bool" where
  "spec_key_format s = (length s = 24 \<and> list_all (\<lambda>c. c \<in> set hexdigits) s)"


section \<open>Example data\<close>

text \<open>
  Concrete users, keys and stores on which the statements below are evaluated.
  \<open>demo_hashpw\<close> stands for \<open>bcrypt.hashpw\<close> there: like bcrypt 5 it raises on a password
  of more than 72 bytes; which digest it returns otherwise is of no importance. \<open>pedro\<close>
  has such a password, 73 bytes long, which the request schema accepts.
\<close>

definition demo_hashpw :: hashpw where
  "demo_hashpw p s = (if 72 < length p then None else Some (s @ ''$'' @ rev p))"


definition juan :: user_create where
  "juan = \<lparr>name = ''Juan'', email = ''juan@email.com'', password = ''secret1''\<rparr>"

definition maria :: user_create where
  "maria = \<lparr>name = ''Maria'', email = ''maria@email.com'', password = ''secret2''\<rparr>"


definition juan_id :: string where
  "juan_id = ''68eeafce05740b9d36aab307''"

definition juan_key :: objectid where
  "juan_key = [104, 238, 175, 206, 5, 116, 11, 157, 54, 170, 179, 7]"

definition upper_id :: string where
  "upper_id = ''68EEAFCE05740B9D36AAB307''"

definition maria_id :: string where
  "maria_id = ''68eeafce05740b9d36aab308''"

definition maria_key :: objectid where
  "maria_key = [104, 238, 175, 206, 5, 116, 11, 157, 54, 170, 179, 8]"

definition empty_store :: world where
  "empty_store = \<lparr>users = [], trace = []\<rparr>"

definition juan_doc :: document where
  "juan_doc = [(''name'', ''Juan''), (''email'', ''juan@email.com''),
               (''hashed_password'', ''salt1$1terces'')]"

definition maria_doc :: document where
  "maria_doc = [(''name'', ''Maria''), (''email'', ''maria@email.com''),
                (''hashed_password'', ''salt2$2terces'')]"

definition one_user :: world where
  "one_user = \<lparr>users = [(juan_key, juan_doc)], trace = []\<rparr>"

definition two_users :: world where
  "two_users = \<lparr>users = [(juan_key, juan_doc), (maria_key, maria_doc)], trace = []\<rparr>"


section \<open>Facts about the collection\<close>

lemma with_hashed_password_Some:
  "bcrypt (password u) salt = Some h \<Longrightarrow>
   with_hashed_password bcrypt salt (model_dump u) =
     Some [(''name'', name u), (''email'', email u), (''hashed_password'', h)]"
  by (simp add: with_hashed_password_def model_dump_def hash_password_def)

lemma with_hashed_password_None:
  "bcrypt (password u) salt = None \<Longrightarrow>
   with_hashed_password bcrypt salt (model_dump u) = None"
  by (simp add: with_hashed_password_def model_dump_def hash_password_def)

lemma find_by_id_append_fresh:
  "k \<notin> fst ` set us \<Longrightarrow> List.find (by_id k) (us @ [(k, d)]) = Some (k, d)"
  by (induction us) (auto simp: by_id_def)

lemma find_by_id_fst: "List.find (by_id k) us = Some x \<Longrightarrow> fst x = k"
  by (auto simp: find_Some_iff by_id_def)

lemma emails_Cons:
  "emails (x # xs) =
     (case map_of (snd x) ''email'' of None \<Rightarrow> emails xs | Some e \<Rightarrow> e # emails xs)"
  by (simp add: emails_def List.map_filter_simps split: option.splits)

lemma emails_Nil: "emails [] = []"
  by (simp add: emails_def List.map_filter_simps)

lemma emails_append: "emails (xs @ ys) = emails xs @ emails ys"
  by (induction xs) (auto simp: emails_Cons emails_Nil split: option.splits)

lemma set_emails: "set (emails us) = {e. \<exists>x \<in> set us. map_of (snd x) ''email'' = Some e}"
  by (induction us) (auto simp: emails_Cons emails_Nil split: option.splits)

lemma find_by_email_iff:
  "(List.find (by_email e) us = None) = (e \<notin> set (emails us))"
  by (auto simp: find_None_iff by_email_def set_emails)

lemma find_ne_None_iff:
  "(List.find (by_email_ne_id e k) us = None) =
     (\<forall>y \<in> set us. fst y \<noteq> k \<longrightarrow> map_of (snd y) ''email'' \<noteq> Some e)"
  by (auto simp: find_None_iff by_email_ne_id_def)

lemma keys_update_first: "map fst (update_first q fs us) = map fst us"
  by (induction us) auto

lemma emails_update_first_subset:
  assumes "\<And>d. map_of (set_fields fs d) ''email'' = Some e"
  shows "set (emails (update_first q fs us)) \<subseteq> insert e (set (emails us))"
  using assms by (induction us) (auto simp: emails_Cons split: option.splits)

lemma unique_emails_update_first:
  assumes fs: "\<And>d. map_of (set_fields fs d) ''email'' = Some e"
    and ids: "distinct (map fst us)"
    and em: "distinct (emails us)"
    and other: "\<forall>x \<in> set us. fst x \<noteq> k \<longrightarrow> map_of (snd x) ''email'' \<noteq> Some e"
  shows "distinct (emails (update_first (by_id k) fs us))"
  using ids em other
proof (induction us)
  case Nil
  then show ?case by (simp add: emails_Nil)
next
  case (Cons x xs)
  show ?case
  proof (cases "fst x = k")
    case True
    from Cons.prems(1) True have "k \<notin> fst ` set xs" by simp
    then have "\<forall>y \<in> set xs. fst y \<noteq> k" by (auto simp: image_iff)
    with Cons.prems have "e \<notin> set (emails xs)" by (auto simp: set_emails)
    moreover from Cons.prems have "distinct (emails xs)"
      by (auto simp: emails_Cons split: option.splits)
    moreover from True have "by_id k x" by (simp add: by_id_def)
    ultimately show ?thesis using fs
      by (simp add: emails_Cons)
  next
    case False
    from False have nq: "\<not> by_id k x" by (simp add: by_id_def)
    from Cons.prems have dx: "distinct (emails xs)"
      by (auto simp: emails_Cons split: option.splits)
    from Cons.prems have IH: "distinct (emails (update_first (by_id k) fs xs))"
      using Cons.IH dx by auto
    have sub: "set (emails (update_first (by_id k) fs xs)) \<subseteq> insert e (set (emails xs))"
      using emails_update_first_subset [OF fs] .
    show ?thesis
    proof (cases "map_of (snd x) ''email''")
      case None
      with nq IH show ?thesis by (simp add: emails_Cons)
    next
      case (Some a)
      with Cons.prems False have "a \<noteq> e" by auto
      moreover from Cons.prems Some have "a \<notin> set (emails xs)"
        by (auto simp: emails_Cons)
      ultimately have "a \<notin> set (emails (update_first (by_id k) fs xs))"
        using sub by auto
      with nq IH Some show ?thesis by (simp add: emails_Cons)
    qed
  qed
qed

lemma find_update_first:
  "List.find (by_id k) us = Some x \<Longrightarrow>
   List.find (by_id k) (update_first (by_id k) fs us) = Some (k, set_fields fs (snd x))"
proof (induction us)
  case Nil
  then show ?case by simp
next
  case (Cons a us)
  show ?case
  proof (cases "by_id k a")
    case True
    with Cons.prems have "x = a" by simp
    moreover from True have "fst a = k" by (simp add: by_id_def)
    moreover have "by_id k (k, set_fields fs (snd a))" by (simp add: by_id_def)
    ultimately show ?thesis using True by simp
  next
    case False
    with Cons show ?thesis by simp
  qed
qed

lemma set_delete_first: "set (delete_first q us) \<subseteq> set us"
  by (induction us) auto

lemma set_emails_delete_first: "set (emails (delete_first q us)) \<subseteq> set (emails us)"
  using set_delete_first [of q us] by (auto simp: set_emails)

lemma emails_delete_first: "distinct (emails us) \<Longrightarrow> distinct (emails (delete_first q us))"
proof (induction us)
  case Nil
  then show ?case by simp
next
  case (Cons x xs)
  then show ?case using set_emails_delete_first [of q xs]
    by (auto simp: emails_Cons split: option.splits)
qed

lemma ids_delete_first: "distinct (map fst us) \<Longrightarrow> distinct (map fst (delete_first q us))"
proof (induction us)
  case Nil
  then show ?case by simp
next
  case (Cons x xs)
  then show ?case using set_delete_first [of q xs] by auto
qed

lemma delete_first_remove1:
  "List.find q us = Some x \<Longrightarrow> delete_first q us = remove1 x us"
proof (induction us)
  case Nil
  then show ?case by simp
next
  case (Cons a us)
  show ?case
  proof (cases "q a")
    case True
    with Cons.prems show ?thesis by simp
  next
    case False
    with Cons.prems have f: "List.find q us = Some x" by simp
    then have "q x" by (auto simp: find_Some_iff)
    with False have "a \<noteq> x" by auto
    with False f Cons.IH show ?thesis by simp
  qed
qed

lemma find_delete_first_by_id:
  "distinct (map fst us) \<Longrightarrow> List.find (by_id k) (delete_first (by_id k) us) = None"
proof (induction us)
  case Nil
  then show ?case by simp
next
  case (Cons a us)
  show ?case
  proof (cases "by_id k a")
    case True
    with Cons.prems have "k \<notin> fst ` set us" by (simp add: by_id_def)
    then have "List.find (by_id k) us = None"
      by (auto simp: find_None_iff by_id_def image_iff)
    with True show ?thesis by simp
  next
    case False
    with Cons show ?thesis by simp
  qed
qed

lemma filter_update_first:
  "filter (\<lambda>y. fst y \<noteq> k) (update_first (by_id k) fs us) = filter (\<lambda>y. fst y \<noteq> k) us"
proof (induction us)
  case Nil
  then show ?case by simp
next
  case (Cons a us)
  show ?case
  proof (cases "by_id k a")
    case True
    then have "fst a = k" by (simp add: by_id_def)
    with True show ?thesis by simp
  next
    case False
    with Cons show ?thesis by simp
  qed
qed

lemma set_fields_shaped:
  assumes "map fst d = [''name'', ''email'', ''hashed_password'']"
  shows "set_fields [(''name'', n), (''email'', e), (''hashed_password'', h)] d =
           [(''name'', n), (''email'', e), (''hashed_password'', h)]"
proof -
  from assms obtain p1 d1 where d: "d = p1 # d1" and p1: "fst p1 = ''name''"
    and r1: "map fst d1 = [''email'', ''hashed_password'']"
    by (cases d) simp_all
  from r1 obtain p2 d2 where d1: "d1 = p2 # d2" and p2: "fst p2 = ''email''"
    and r2: "map fst d2 = [''hashed_password'']"
    by (cases d1) simp_all
  from r2 obtain p3 where d2: "d2 = [p3]" and p3: "fst p3 = ''hashed_password''"
    by (cases d2) simp_all
  from d d1 d2 p1 p2 p3 show ?thesis by simp
qed

lemma user_shaped_update_first:
  "user_shaped us \<Longrightarrow>
   user_shaped (update_first q [(''name'', n), (''email'', e), (''hashed_password'', h)] us)"
proof (induction us)
  case Nil
  then show ?case by simp
next
  case (Cons a us)
  from Cons.prems have a: "map fst (snd a) = [''name'', ''email'', ''hashed_password'']"
    and us: "user_shaped us"
    by (simp_all add: user_shaped_def)
  from Cons.IH [OF us] a us show ?case
    by (simp add: user_shaped_def set_fields_shaped [OF a] del: set_fields.simps)
qed

lemma user_shaped_delete_first: "user_shaped us \<Longrightarrow> user_shaped (delete_first q us)"
  by (induction us) (simp_all add: user_shaped_def)

lemma user_shaped_find:
  "user_shaped us \<Longrightarrow> List.find q us = Some x \<Longrightarrow>
   map fst (snd x) = [''name'', ''email'', ''hashed_password'']"
proof -
  assume s: "user_shaped us" and f: "List.find q us = Some x"
  from f have "x \<in> set us" by (auto simp: find_Some_iff)
  with s show ?thesis by (simp add: user_shaped_def list_all_iff)
qed


section \<open>Facts about the identifier codec\<close>

lemma digit_value_Some_iff:
  "(digit_value c \<noteq> None) = (c \<in> set ''0123456789abcdefABCDEF'')"
  by (simp add: digit_value_def hex_table_def)

lemma isspace_not_digit: "isspace c \<Longrightarrow> digit_value c = None"
  unfolding isspace_def
  apply (simp only: set_simps insert_iff empty_iff)
  apply (elim disjE)
  apply (simp_all add: digit_value_def hex_table_def)
  done

lemma fromhex_hex_digits:
  "even (length s) \<Longrightarrow> \<forall>c \<in> set s. digit_value c \<noteq> None \<Longrightarrow> fromhex s \<noteq> None"
proof (induction s rule: fromhex.induct)
  case 1
  then show ?case by simp
next
  case (2 c)
  then show ?case by simp
next
  case (3 c d cs)
  from "3.prems" obtain hi where hi: "digit_value c = Some hi" by fastforce
  from "3.prems" obtain lo where lo: "digit_value d = Some lo" by fastforce
  from hi have ns: "\<not> isspace c" using isspace_not_digit [of c] by auto
  from "3.prems" have "even (length cs)" and "\<forall>c \<in> set cs. digit_value c \<noteq> None"
    by simp_all
  then have "fromhex cs \<noteq> None" by (rule "3.IH"(2) [OF ns hi lo])
  with ns hi lo show ?case by simp
qed

lemma fromhex_chars:
  "fromhex s \<noteq> None \<Longrightarrow> \<forall>c \<in> set s. digit_value c \<noteq> None \<or> isspace c"
proof (induction s rule: fromhex.induct)
  case 1
  then show ?case by simp
next
  case (2 c')
  then show ?case by (simp split: if_splits)
next
  case (3 c' d cs)
  show ?case
  proof (cases "isspace c'")
    case True
    with "3.prems" have "fromhex (d # cs) \<noteq> None" by simp
    with "3.IH"(1) True have "\<forall>c \<in> set (d # cs). digit_value c \<noteq> None \<or> isspace c"
      by blast
    with True show ?thesis by simp
  next
    case False
    with "3.prems" obtain hi where hi: "digit_value c' = Some hi"
      by (cases "digit_value c'") auto
    with False "3.prems" obtain lo where lo: "digit_value d = Some lo"
      by (cases "digit_value d") auto
    from False hi lo "3.prems" have "fromhex cs \<noteq> None" by auto
    with "3.IH"(2) [OF False hi lo]
    have "\<forall>c \<in> set cs. digit_value c \<noteq> None \<or> isspace c" .
    with hi lo show ?thesis by simp
  qed
qed

lemma is_valid_juan_id: "is_valid juan_id"
  by (simp add: is_valid_def juan_id_def digit_value_def hex_table_def isspace_def)

lemma ObjectId_juan_id: "ObjectId juan_id = juan_key"
  by (simp add: ObjectId_def juan_id_def juan_key_def digit_value_def hex_table_def isspace_def)

lemma is_valid_upper_id: "is_valid upper_id"
  by (simp add: is_valid_def upper_id_def digit_value_def hex_table_def isspace_def)

lemma ObjectId_upper_id: "ObjectId upper_id = juan_key"
  by (simp add: ObjectId_def upper_id_def juan_key_def digit_value_def hex_table_def isspace_def)

lemma str_oid_juan_key: "str_oid juan_key = juan_id"
  by (simp add: juan_id_def juan_key_def hexdigits_def)


lemma keys_differ: "juan_key \<noteq> maria_key"
  by (simp add: juan_key_def maria_key_def)


section \<open>Facts about the routes\<close>

lemma create_user_conflict:
  assumes "email u \<in> set (emails (users w))"
  shows "create_user bcrypt salt k u w =
           (Inl (Raised (AlreadyExistsException ''Usuario'' (Some (''email '' @ email u)))),
            w\<lparr>trace := trace w @ [FindOne]\<rparr>)"
proof -
  from assms have "List.find (by_email (email u)) (users w) \<noteq> None"
    by (simp add: find_by_email_iff)
  then obtain x where "List.find (by_email (email u)) (users w) = Some x" by blast
  then show ?thesis by (simp add: create_user_def find_one_def log_def)
qed

lemma create_user_hash_fails:
  assumes "email u \<notin> set (emails (users w))" and "bcrypt (password u) salt = None"
  shows "create_user bcrypt salt k u w =
           (Inl ValueError, w\<lparr>trace := trace w @ [FindOne, HashPassword]\<rparr>)"
proof -
  from assms(1) have "List.find (by_email (email u)) (users w) = None"
    by (simp add: find_by_email_iff)
  moreover have "with_hashed_password bcrypt salt (model_dump u) = None"
    using assms(2) by (simp add: with_hashed_password_None)
  ultimately show ?thesis
    by (simp add: create_user_def find_one_def log_def Let_def)
qed

lemma create_user_duplicate_key:
  assumes "email u \<notin> set (emails (users w))" and "bcrypt (password u) salt = Some h"
    and "k \<in> fst ` set (users w)"
  shows "create_user bcrypt salt k u w =
           (Inl DuplicateKeyError,
            w\<lparr>trace := trace w @ [FindOne, HashPassword, InsertOne]\<rparr>)"
proof -
  from assms(1) have "List.find (by_email (email u)) (users w) = None"
    by (simp add: find_by_email_iff)
  moreover have "with_hashed_password bcrypt salt (model_dump u) =
      Some [(''name'', name u), (''email'', email u), (''hashed_password'', h)]"
    using assms(2) by (simp add: with_hashed_password_Some)
  ultimately show ?thesis using assms(3)
    by (simp add: create_user_def find_one_def insert_one_def log_def Let_def)
qed

lemma create_user_ok:
  assumes "email u \<notin> set (emails (users w))" and "bcrypt (password u) salt = Some h"
    and "k \<notin> fst ` set (users w)"
  shows "create_user bcrypt salt k u w =
           (Inr (success_response
                   (Doc [(''_id'', str_oid k), (''name'', name u), (''email'', email u),
                         (''hashed_password'', h)])
                   ''Usuario creado exitosamente'' 201),
            \<lparr>users = users w @
                       [(k, [(''name'', name u), (''email'', email u),
                             (''hashed_password'', h)])],
             trace = trace w @ [FindOne, HashPassword, InsertOne, FindOne]\<rparr>)"
proof -
  from assms(1) have "List.find (by_email (email u)) (users w) = None"
    by (simp add: find_by_email_iff)
  moreover have "with_hashed_password bcrypt salt (model_dump u) =
      Some [(''name'', name u), (''email'', email u), (''hashed_password'', h)]"
    using assms(2) by (simp add: with_hashed_password_Some)
  ultimately show ?thesis using assms(3)
    by (simp add: create_user_def find_one_def insert_one_def log_def Let_def
        find_by_id_append_fresh id_to_str_def)
qed

lemma create_user_users:
  "users (snd (create_user bcrypt salt k u w)) = users w \<or>
   (\<exists>h. email u \<notin> set (emails (users w)) \<and> k \<notin> fst ` set (users w) \<and>
        users (snd (create_user bcrypt salt k u w)) =
          users w @ [(k, [(''name'', name u), (''email'', email u),
                          (''hashed_password'', h)])])"
proof (cases "email u \<in> set (emails (users w))")
  case True
  then show ?thesis by (simp add: create_user_conflict)
next
  case False
  show ?thesis
  proof (cases "bcrypt (password u) salt")
    case None
    with False show ?thesis by (simp add: create_user_hash_fails)
  next
    case (Some h)
    show ?thesis
    proof (cases "k \<in> fst ` set (users w)")
      case True
      with False Some show ?thesis by (simp add: create_user_duplicate_key)
    next
      case k: False
      from create_user_ok [where bcrypt = bcrypt and salt = salt and u = u and h = h,
          OF False Some k] False k
      show ?thesis by simp
    qed
  qed
qed

lemma update_user_conflict:
  assumes "is_valid user_id"
    and "List.find (by_id (ObjectId user_id)) (users w) = Some x"
    and "List.find (by_email_ne_id (email u) (ObjectId user_id)) (users w) = Some y"
  shows "update_user bcrypt salt user_id u w =
           (Inl (Raised (AlreadyExistsException ''Usuario'' (Some (''email '' @ email u)))),
            w\<lparr>trace := trace w @ [FindOne, FindOne]\<rparr>)"
  using assms by (simp add: update_user_def find_one_def log_def)

lemma update_user_hash_fails:
  assumes "is_valid user_id"
    and "List.find (by_id (ObjectId user_id)) (users w) = Some x"
    and "List.find (by_email_ne_id (email u) (ObjectId user_id)) (users w) = None"
    and "bcrypt (password u) salt = None"
  shows "update_user bcrypt salt user_id u w =
           (Inl ValueError, w\<lparr>trace := trace w @ [FindOne, FindOne, HashPassword]\<rparr>)"
proof -
  have "with_hashed_password bcrypt salt (model_dump u) = None"
    using assms(4) by (simp add: with_hashed_password_None)
  with assms(1-3) show ?thesis
    by (simp add: update_user_def find_one_def log_def Let_def)
qed

lemma update_user_ok:
  assumes "is_valid user_id"
    and "List.find (by_id (ObjectId user_id)) (users w) = Some x"
    and "List.find (by_email_ne_id (email u) (ObjectId user_id)) (users w) = None"
    and "bcrypt (password u) salt = Some h"
  shows "update_user bcrypt salt user_id u w =
           (Inr (success_response
                   (Doc ((''_id'', str_oid (ObjectId user_id)) #
                         set_fields [(''name'', name u), (''email'', email u),
                                     (''hashed_password'', h)] (snd x)))
                   ''Usuario actualizado exitosamente'' 200),
            \<lparr>users = update_first (by_id (ObjectId user_id))
                        [(''name'', name u), (''email'', email u), (''hashed_password'', h)]
                        (users w),
             trace = trace w @ [FindOne, FindOne, HashPassword, UpdateOne, FindOne]\<rparr>)"
proof -
  have "with_hashed_password bcrypt salt (model_dump u) =
      Some [(''name'', name u), (''email'', email u), (''hashed_password'', h)]"
    using assms(4) by (simp add: with_hashed_password_Some)
  with assms(1-3)
    find_update_first [OF assms(2),
      of "[(''name'', name u), (''email'', email u), (''hashed_password'', h)]"]
  show ?thesis
    by (simp add: update_user_def find_one_def update_one_def log_def id_to_str_def Let_def
        del: set_fields.simps)
qed

lemma update_user_not_found:
  assumes "is_valid user_id"
    and "List.find (by_id (ObjectId user_id)) (users w) = None"
  shows "update_user bcrypt salt user_id u w =
           (Inl (Raised (NotFoundException ''Usuario'' (Some user_id))),
            w\<lparr>trace := trace w @ [FindOne]\<rparr>)"
  using assms by (simp add: update_user_def find_one_def log_def)

lemma update_user_cases:
  "users (snd (update_user bcrypt salt user_id u w)) = users w \<and>
   (\<forall>r. fst (update_user bcrypt salt user_id u w) \<noteq> Inr r) \<or>
   (\<exists>x h. is_valid user_id \<and>
          List.find (by_id (ObjectId user_id)) (users w) = Some x \<and>
          List.find (by_email_ne_id (email u) (ObjectId user_id)) (users w) = None \<and>
          bcrypt (password u) salt = Some h)"
proof (cases "is_valid user_id")
  case False
  then show ?thesis by (simp add: update_user_def)
next
  case v: True
  show ?thesis
  proof (cases "List.find (by_id (ObjectId user_id)) (users w)")
    case None
    with v show ?thesis by (simp add: update_user_not_found)
  next
    case (Some x)
    show ?thesis
    proof (cases "List.find (by_email_ne_id (email u) (ObjectId user_id)) (users w)")
      case y: (Some y)
      with v Some show ?thesis by (simp add: update_user_conflict)
    next
      case None
      show ?thesis
      proof (cases "bcrypt (password u) salt")
        case h: None
        with v Some None show ?thesis by (simp add: update_user_hash_fails)
      next
        case h: (Some h)
        with v Some None show ?thesis by blast
      qed
    qed
  qed
qed

lemma delete_user_among_ok:
  assumes "is_valid user_id"
    and "List.find (by_id (ObjectId user_id)) (users w) = Some x"
  shows "delete_user_among others user_id w =
           (Inr (success_response
                   (Counts [(''deleted_count'',
                             if List.find (by_id (ObjectId user_id)) (others (users w)) = None
                             then 0 else 1)])
                   ''Usuario eliminado exitosamente'' 200),
            \<lparr>users = delete_first (by_id (ObjectId user_id)) (others (users w)),
             trace = trace w @ [FindOne, DeleteOne]\<rparr>)"
  using assms
  by (simp add: delete_user_among_def find_one_def delete_one_def log_def Let_def)

lemma delete_user_not_found:
  assumes "is_valid user_id"
    and "List.find (by_id (ObjectId user_id)) (users w) = None"
  shows "delete_user user_id w =
           (Inl (Raised (NotFoundException ''Usuario'' (Some user_id))),
            w\<lparr>trace := trace w @ [FindOne]\<rparr>)"
  using assms by (simp add: delete_user_def delete_user_among_def find_one_def log_def)

lemma get_user_not_found:
  assumes "is_valid user_id"
    and "List.find (by_id (ObjectId user_id)) (users w) = None"
  shows "get_user user_id w =
           (Inl (Raised (NotFoundException ''Usuario'' (Some user_id))),
            w\<lparr>trace := trace w @ [FindOne]\<rparr>)"
  using assms by (simp add: get_user_def find_one_def log_def)

lemma delete_user_users:
  "users (snd (delete_user uid w)) =
     (if is_valid uid \<and> List.find (by_id (ObjectId uid)) (users w) \<noteq> None
      then delete_first (by_id (ObjectId uid)) (users w)
      else users w)"
proof (cases "is_valid uid")
  case False
  then show ?thesis by (simp add: delete_user_def delete_user_among_def)
next
  case v: True
  show ?thesis
  proof (cases "List.find (by_id (ObjectId uid)) (users w)")
    case None
    with v show ?thesis by (simp add: delete_user_not_found)
  next
    case (Some x)
    with v show ?thesis by (simp add: delete_user_def delete_user_among_ok)
  qed
qed

text \<open>One request keeps the invariants of the collection.\<close>

lemma serve_preserves:
  assumes "unique_ids (users w)" and "unique_emails (users w)"
  shows "unique_ids (users (snd (serve bcrypt r w))) \<and>
         unique_emails (users (snd (serve bcrypt r w)))"
proof (cases r)
  case (Create salt k u)
  from create_user_users [of bcrypt salt k u w] show ?thesis
  proof
    assume "users (snd (create_user bcrypt salt k u w)) = users w"
    with assms Create show ?thesis by simp
  next
    assume "\<exists>h. email u \<notin> set (emails (users w)) \<and> k \<notin> fst ` set (users w) \<and>
        users (snd (create_user bcrypt salt k u w)) =
          users w @ [(k, [(''name'', name u), (''email'', email u),
                          (''hashed_password'', h)])]"
    then obtain h where "email u \<notin> set (emails (users w))" and "k \<notin> fst ` set (users w)"
      and "users (snd (create_user bcrypt salt k u w)) =
          users w @ [(k, [(''name'', name u), (''email'', email u),
                          (''hashed_password'', h)])]"
      by blast
    with assms Create show ?thesis
      by (simp add: unique_ids_def unique_emails_def emails_append emails_Cons emails_Nil)
  qed
next
  case (Update salt uid u)
  from update_user_cases [of bcrypt salt uid u w] show ?thesis
  proof
    assume "users (snd (update_user bcrypt salt uid u w)) = users w \<and>
            (\<forall>r. fst (update_user bcrypt salt uid u w) \<noteq> Inr r)"
    with assms Update show ?thesis by simp
  next
    assume "\<exists>x h. is_valid uid \<and>
          List.find (by_id (ObjectId uid)) (users w) = Some x \<and>
          List.find (by_email_ne_id (email u) (ObjectId uid)) (users w) = None \<and>
          bcrypt (password u) salt = Some h"
    then obtain x h where v: "is_valid uid"
      and x: "List.find (by_id (ObjectId uid)) (users w) = Some x"
      and ne: "List.find (by_email_ne_id (email u) (ObjectId uid)) (users w) = None"
      and h: "bcrypt (password u) salt = Some h"
      by blast
    let ?F = "[(''name'', name u), (''email'', email u), (''hashed_password'', h)]"
    from ne have other: "\<forall>x \<in> set (users w). fst x \<noteq> ObjectId uid \<longrightarrow>
                        map_of (snd x) ''email'' \<noteq> Some (email u)"
      by (simp add: find_ne_None_iff)
    have fs: "\<And>d. map_of (set_fields ?F d) ''email'' = Some (email u)"
      by (simp add: AList.update_conv')
    have em: "distinct (emails (update_first (by_id (ObjectId uid)) ?F (users w)))"
      using unique_emails_update_first [OF fs _ _ other] assms
      by (simp add: unique_ids_def unique_emails_def)
    have us: "users (snd (update_user bcrypt salt uid u w)) =
                update_first (by_id (ObjectId uid)) ?F (users w)"
      by (simp add: update_user_ok [where bcrypt = bcrypt and salt = salt and u = u and h = h,
            OF v x ne h])
    from em assms(1) Update show ?thesis
      by (simp add: us unique_ids_def unique_emails_def keys_update_first)
  qed
next
  case (Delete uid)
  with assms show ?thesis
    by (simp add: delete_user_users unique_ids_def unique_emails_def emails_delete_first
        ids_delete_first)
qed

lemma serve_all_preserves:
  "unique_ids (users w) \<Longrightarrow> unique_emails (users w) \<Longrightarrow>
   unique_ids (users (serve_all bcrypt rs w)) \<and> unique_emails (users (serve_all bcrypt rs w))"
proof (induction rs arbitrary: w)
  case Nil
  then show ?case by simp
next
  case (Cons r rs)
  from serve_preserves [OF Cons.prems, of bcrypt r]
  show ?case using Cons.IH by simp
qed

lemma serve_shaped:
  assumes "user_shaped (users w)"
  shows "user_shaped (users (snd (serve bcrypt r w)))"
proof (cases r)
  case (Create salt k u)
  from create_user_users [of bcrypt salt k u w] assms Create show ?thesis
    by (auto simp: user_shaped_def)
next
  case (Update salt uid u)
  from update_user_cases [of bcrypt salt uid u w] show ?thesis
  proof
    assume "users (snd (update_user bcrypt salt uid u w)) = users w \<and>
            (\<forall>r. fst (update_user bcrypt salt uid u w) \<noteq> Inr r)"
    with assms Update show ?thesis by simp
  next
    assume "\<exists>x h. is_valid uid \<and>
          List.find (by_id (ObjectId uid)) (users w) = Some x \<and>
          List.find (by_email_ne_id (email u) (ObjectId uid)) (users w) = None \<and>
          bcrypt (password u) salt = Some h"
    then obtain x h where v: "is_valid uid"
      and x: "List.find (by_id (ObjectId uid)) (users w) = Some x"
      and ne: "List.find (by_email_ne_id (email u) (ObjectId uid)) (users w) = None"
      and h: "bcrypt (password u) salt = Some h"
      by blast
    have "users (snd (update_user bcrypt salt uid u w)) =
            update_first (by_id (ObjectId uid))
              [(''name'', name u), (''email'', email u), (''hashed_password'', h)] (users w)"
      by (simp add: update_user_ok [where bcrypt = bcrypt and salt = salt and u = u and h = h,
            OF v x ne h])
    with user_shaped_update_first [OF assms] Update show ?thesis by simp
  qed
next
  case (Delete uid)
  with assms show ?thesis
    by (simp add: delete_user_users user_shaped_delete_first)
qed

lemma serve_all_shaped:
  "user_shaped (users w) \<Longrightarrow> user_shaped (users (serve_all bcrypt rs w))"
proof (induction rs arbitrary: w)
  case Nil
  then show ?case by simp
next
  case (Cons r rs)
  from serve_shaped [OF Cons.prems, of bcrypt r]
  show ?case using Cons.IH by simp
qed

lemma served_from_empty: "user_shaped (users (serve_all bcrypt rs empty_store))"
  by (rule serve_all_shaped) (simp add: empty_store_def user_shaped_def)


section \<open>Read-only views and the credential digest\<close>

text \<open>
  C1. The claim: the user data of every successful List, Get, Create and Update response is
  the stored document without its \<open>hashed_password\<close> field. The routes hand the document
  they read to the envelope as it is, so the field is returned. Evaluated here on the empty
  store and on the store that one Create leaves: the response of Create, of List and of Get
  each carry \<open>hashed_password\<close> with the stored digest.
\<close>

theorem hashed_password_in_responses:
  "fst (create_user demo_hashpw ''salt1'' juan_key juan empty_store) =
     Inr \<lparr>success = True, statusCode = 201, message = ''Usuario creado exitosamente'',
          data = Doc [(''_id'', juan_id), (''name'', ''Juan''), (''email'', ''juan@email.com''),
                      (''hashed_password'', ''salt1$1terces'')],
          count = None\<rparr> \<and>
   users (snd (create_user demo_hashpw ''salt1'' juan_key juan empty_store)) = users one_user \<and>
   fst (get_all_users one_user) =
     Inr \<lparr>success = True, statusCode = 200, message = ''Se encontraron 1 usuarios'',
          data = Docs [[(''_id'', juan_id), (''name'', ''Juan''), (''email'', ''juan@email.com''),
                        (''hashed_password'', ''salt1$1terces'')]],
          count = Some 1\<rparr> \<and>
   fst (get_user juan_id one_user) =
     Inr \<lparr>success = True, statusCode = 200, message = ''Usuario obtenido exitosamente'',
          data = Doc [(''_id'', juan_id), (''name'', ''Juan''), (''email'', ''juan@email.com''),
                      (''hashed_password'', ''salt1$1terces'')],
          count = None\<rparr>"
  by (simp add: create_user_def get_all_users_def get_user_def find_all_def find_one_def
      insert_one_def log_def by_email_def by_id_def id_to_str_def success_response_def
      with_hashed_password_def model_dump_def hash_password_def demo_hashpw_def juan_def
      Let_def
      empty_store_def one_user_def juan_doc_def str_oid_juan_key is_valid_juan_id
      ObjectId_juan_id str_nat.simps hexdigits_def)


section \<open>List\<close>

text \<open>
  C10. For every store, List succeeds with status 200; its data are the stored documents,
  all of them and in storage order, each with its \<open>_id\<close> as text in front of its stored
  fields; \<open>count\<close> is the number of documents, which is the length of the data. The store is
  read once and not changed.
\<close>

theorem get_all_users_lists_all:
  "get_all_users w =
     (Inr \<lparr>success = True, statusCode = 200,
           message = ''Se encontraron '' @ str_nat (length (users w)) @ '' usuarios'',
           data = Docs (map id_to_str (users w)),
           count = Some (length (map id_to_str (users w)))\<rparr>,
      w\<lparr>trace := trace w @ [Find]\<rparr>) \<and>
   length (map id_to_str (users w)) = length (users w) \<and>
   map tl (map id_to_str (users w)) = map snd (users w) \<and>
   map hd (map id_to_str (users w)) = map (Pair ''_id'') (map str_oid (map fst (users w)))"
  by (simp add: get_all_users_def find_all_def log_def success_response_def id_to_str_def
      comp_def)


section \<open>Create\<close>


lemma juan_email_held: "email juan \<in> set (emails (users one_user))"
  by (simp add: juan_def one_user_def juan_doc_def emails_Cons emails_Nil)






section \<open>Email uniqueness\<close>

text \<open>
  C2. If no two stored documents share an \<open>_id\<close> and no two hold the same email, then the
  same is true after any sequence of Create, Update and Delete requests served one after the
  other. In particular a Create whose email a stored user holds fails with AlreadyExists
  and leaves the collection as it was.
\<close>

theorem email_uniqueness_preserved:
  "(unique_ids (users w) \<and> unique_emails (users w) \<longrightarrow>
      unique_emails (users (serve_all bcrypt rs w)) \<and>
      unique_ids (users (serve_all bcrypt rs w))) \<and>
   (email u \<in> set (emails (users w)) \<longrightarrow>
      fst (create_user bcrypt salt k u w) =
        Inl (Raised (AlreadyExistsException ''Usuario'' (Some (''email '' @ email u)))) \<and>
      users (snd (create_user bcrypt salt k u w)) = users w)"
  using serve_all_preserves [of w bcrypt rs] create_user_conflict [of u w bcrypt salt k]
  by simp

lemma one_user_unique: "unique_ids (users one_user) \<and> unique_emails (users one_user)"
  by (simp add: unique_ids_def unique_emails_def one_user_def juan_doc_def emails_Cons
      emails_Nil)

theorem email_uniqueness_preserved_witness:
  "unique_ids (users one_user) \<and> unique_emails (users one_user) \<and>
   unique_emails (users (serve_all demo_hashpw
      [Create ''salt2'' maria_key maria, Create ''salt3'' [0] juan,
       Update ''salt4'' maria_id juan, Update ''salt5'' juan_id maria, Delete juan_id]
      one_user)) \<and>
   email juan \<in> set (emails (users one_user)) \<and>
   fst (create_user demo_hashpw ''salt3'' [0] juan one_user) =
     Inl (Raised (AlreadyExistsException ''Usuario'' (Some (''email '' @ email juan)))) \<and>
   users (snd (create_user demo_hashpw ''salt3'' [0] juan one_user)) = users one_user"
  using email_uniqueness_preserved [of one_user demo_hashpw
      "[Create ''salt2'' maria_key maria, Create ''salt3'' [0] juan,
        Update ''salt4'' maria_id juan, Update ''salt5'' juan_id maria, Delete juan_id]"
      juan "''salt3''" "[0]"]
    one_user_unique juan_email_held
  by blast


section \<open>Identifier validation\<close>

text \<open>
  C4, as the code has it. An identifier that \<open>ObjectId.is_valid\<close> rejects makes Get, Update
  and Delete fail with status 400 and the identifier in the error, the store and the trace
  being exactly as before: no call reached the store. Every string whose length is not 24,
  and every string with a character that is neither a hexadecimal digit nor ASCII white
  space, is rejected. Every string of 24 hexadecimal digits is accepted, the digits
  \<open>A\<close> to \<open>F\<close> in upper case as well as in lower case.
\<close>

theorem invalid_identifier_rejected:
  "(\<not> is_valid user_id \<longrightarrow>
      get_user user_id w = (Inl (invalid_id user_id), w) \<and>
      update_user bcrypt salt user_id u w = (Inl (invalid_id user_id), w) \<and>
      delete_user user_id w = (Inl (invalid_id user_id), w)) \<and>
   invalid_id user_id =
     Raised \<lparr>status_code = 400, exc_message = invalid_id_message, resource = None,
             exc_identifier = Some user_id\<rparr> \<and>
   (length user_id \<noteq> 24 \<longrightarrow> \<not> is_valid user_id) \<and>
   (c \<in> set user_id \<and> c \<notin> set ''0123456789abcdefABCDEF'' \<and> \<not> isspace c \<longrightarrow>
      \<not> is_valid user_id) \<and>
   (length user_id = 24 \<and> set user_id \<subseteq> set ''0123456789abcdefABCDEF'' \<longrightarrow>
      is_valid user_id)"
proof -
  have a: "\<not> is_valid user_id \<longrightarrow>
      get_user user_id w = (Inl (invalid_id user_id), w) \<and>
      update_user bcrypt salt user_id u w = (Inl (invalid_id user_id), w) \<and>
      delete_user user_id w = (Inl (invalid_id user_id), w)"
    by (simp add: get_user_def update_user_def delete_user_def delete_user_among_def)
  have b: "invalid_id user_id =
     Raised \<lparr>status_code = 400, exc_message = invalid_id_message, resource = None,
             exc_identifier = Some user_id\<rparr>"
    by (simp add: invalid_id_def BadRequestException_def CustomHTTPException_def)
  have c: "length user_id \<noteq> 24 \<longrightarrow> \<not> is_valid user_id"
    by (simp add: is_valid_def)
  have d: "c \<in> set user_id \<and> c \<notin> set ''0123456789abcdefABCDEF'' \<and> \<not> isspace c \<longrightarrow>
      \<not> is_valid user_id"
  proof
    assume h: "c \<in> set user_id \<and> c \<notin> set ''0123456789abcdefABCDEF'' \<and> \<not> isspace c"
    then have "digit_value c = None" using digit_value_Some_iff [of c] by blast
    with h have "\<not> (\<forall>c \<in> set user_id. digit_value c \<noteq> None \<or> isspace c)" by blast
    then have "fromhex user_id = None" using fromhex_chars [of user_id] by blast
    then show "\<not> is_valid user_id" by (simp add: is_valid_def)
  qed
  have e: "length user_id = 24 \<and> set user_id \<subseteq> set ''0123456789abcdefABCDEF'' \<longrightarrow>
      is_valid user_id"
  proof
    assume h: "length user_id = 24 \<and> set user_id \<subseteq> set ''0123456789abcdefABCDEF''"
    then have "\<forall>c \<in> set user_id. digit_value c \<noteq> None"
      using digit_value_Some_iff by blast
    moreover from h have "even (length user_id)" by simp
    ultimately have "fromhex user_id \<noteq> None" by (rule fromhex_hex_digits [rotated])
    with h show "is_valid user_id" by (auto simp: is_valid_def)
  qed
  show ?thesis by (rule conjI [OF a conjI [OF b conjI [OF c conjI [OF d e]]]])
qed

theorem invalid_identifier_rejected_witness:
  "\<not> is_valid ''123abc'' \<and>
   get_user ''123abc'' one_user = (Inl (invalid_id ''123abc''), one_user) \<and>
   update_user demo_hashpw ''salt1'' ''123abc'' maria one_user =
     (Inl (invalid_id ''123abc''), one_user) \<and>
   delete_user ''123abc'' one_user = (Inl (invalid_id ''123abc''), one_user) \<and>
   \<not> is_valid ''68eeafce05740b9d36aab30z'' \<and>
   is_valid upper_id"
proof -
  have n: "\<not> is_valid ''123abc''" by (simp add: is_valid_def)
  have z: "CHR ''z'' \<in> set ''68eeafce05740b9d36aab30z'' \<and>
           CHR ''z'' \<notin> set ''0123456789abcdefABCDEF'' \<and> \<not> isspace CHR ''z''"
    by (simp add: isspace_def)
  have up: "length upper_id = 24 \<and> set upper_id \<subseteq> set ''0123456789abcdefABCDEF''"
    by (simp add: upper_id_def)
  from n z up
    invalid_identifier_rejected [of "''123abc''" one_user demo_hashpw "''salt1''" maria
      "CHR ''z''"]
    invalid_identifier_rejected [of "''68eeafce05740b9d36aab30z''" one_user demo_hashpw
      "''salt1''" maria "CHR ''z''"]
    invalid_identifier_rejected [of upper_id one_user demo_hashpw "''salt1''" maria "CHR ''z''"]
  show ?thesis by blast
qed

text \<open>
  C4 as stated fails on an identifier in upper case: it is not a lowercase token, yet it is
  accepted, the store is queried, and the answer is 404 on the empty store and the stored
  user (or its deletion) where the key exists.
\<close>

theorem uppercase_identifier_accepted:
  "\<not> spec_key_format upper_id \<and>
   get_user upper_id empty_store =
     (Inl (Raised \<lparr>status_code = 404,
                    exc_message = ''Usuario no encontrado con identificador: '' @ upper_id,
                    resource = Some ''Usuario'', exc_identifier = Some upper_id\<rparr>),
      \<lparr>users = [], trace = [FindOne]\<rparr>) \<and>
   fst (get_user upper_id one_user) =
     Inr \<lparr>success = True, statusCode = 200, message = ''Usuario obtenido exitosamente'',
          data = Doc ((''_id'', juan_id) # juan_doc), count = None\<rparr> \<and>
   fst (delete_user upper_id one_user) =
     Inr \<lparr>success = True, statusCode = 200, message = ''Usuario eliminado exitosamente'',
          data = Counts [(''deleted_count'', 1)], count = None\<rparr>"
proof -
  have "\<not> spec_key_format upper_id"
    by (simp add: spec_key_format_def upper_id_def hexdigits_def)
  moreover have "upper_id \<noteq> []" by (simp add: upper_id_def)
  ultimately show ?thesis
    by (simp add: get_user_def delete_user_def delete_user_among_def is_valid_upper_id
        ObjectId_upper_id find_one_def delete_one_def log_def by_id_def empty_store_def
        one_user_def NotFoundException_def CustomHTTPException_def id_to_str_def
        str_oid_juan_key success_response_def)
qed


section \<open>Update\<close>


lemma find_juan_two_users:
  "List.find (by_id (ObjectId juan_id)) (users two_users) = Some (juan_key, juan_doc)"
  by (simp add: ObjectId_juan_id two_users_def by_id_def)






text \<open>
  C6. On every store that requests served one after the other produce from the empty
  collection, a successful Update leaves at its key a document that consists of exactly
  the new name, the new email and the new digest: nothing of the previous body is left.
  The keys of the collection are the same before and after, so the \<open>_id\<close> is unchanged,
  and every document with another key is as it was. The route writes with \<open>$set\<close>, which
  overwrites the three fields; the stored bodies have no other field.
\<close>

theorem update_user_replaces_body:
  assumes "w = serve_all bcrypt rs empty_store"
    and "fst (update_user bcrypt salt user_id u w) = Inr r"
  shows "(\<exists>h. bcrypt (password u) salt = Some h \<and>
              List.find (by_id (ObjectId user_id))
                (users (snd (update_user bcrypt salt user_id u w))) =
                Some (ObjectId user_id,
                      [(''name'', name u), (''email'', email u), (''hashed_password'', h)])) \<and>
         ObjectId user_id \<in> set (map fst (users w)) \<and>
         map fst (users (snd (update_user bcrypt salt user_id u w))) = map fst (users w) \<and>
         filter (\<lambda>y. fst y \<noteq> ObjectId user_id)
           (users (snd (update_user bcrypt salt user_id u w))) =
           filter (\<lambda>y. fst y \<noteq> ObjectId user_id) (users w)"
proof -
  let ?K = "ObjectId user_id"
  from assms(1) have shaped: "user_shaped (users w)" by (simp add: served_from_empty)
  from update_user_cases [of bcrypt salt user_id u w] assms(2)
  obtain x h where v: "is_valid user_id"
    and x: "List.find (by_id ?K) (users w) = Some x"
    and ne: "List.find (by_email_ne_id (email u) ?K) (users w) = None"
    and h: "bcrypt (password u) salt = Some h"
    by blast
  let ?F = "[(''name'', name u), (''email'', email u), (''hashed_password'', h)]"
  note ok = update_user_ok [where bcrypt = bcrypt and salt = salt and u = u and h = h,
      OF v x ne h]
  from user_shaped_find [OF shaped x]
  have body: "set_fields ?F (snd x) = ?F" by (rule set_fields_shaped)
  have 1: "List.find (by_id ?K) (users (snd (update_user bcrypt salt user_id u w))) =
             Some (?K, ?F)"
    using find_update_first [OF x, of ?F] body by (simp add: ok del: set_fields.simps)
  from x have "x \<in> set (users w)" by (auto simp: find_Some_iff)
  moreover from x have "fst x = ?K" by (rule find_by_id_fst)
  ultimately have 2: "?K \<in> set (map fst (users w))" by force
  have 3: "map fst (users (snd (update_user bcrypt salt user_id u w))) = map fst (users w)"
    by (simp add: ok keys_update_first del: set_fields.simps)
  have 4: "filter (\<lambda>y. fst y \<noteq> ?K) (users (snd (update_user bcrypt salt user_id u w))) =
           filter (\<lambda>y. fst y \<noteq> ?K) (users w)"
    by (simp add: ok filter_update_first del: set_fields.simps)
  from h 1 2 3 4 show ?thesis by blast
qed

lemma served_juan:
  "serve_all demo_hashpw [Create ''salt1'' juan_key juan] empty_store =
     \<lparr>users = [(juan_key, juan_doc)], trace = [FindOne, HashPassword, InsertOne, FindOne]\<rparr>"
  by (simp add: create_user_def find_one_def insert_one_def log_def by_email_def by_id_def
      with_hashed_password_def model_dump_def hash_password_def demo_hashpw_def juan_def
      empty_store_def juan_doc_def Let_def)

lemma update_served_juan:
  "fst (update_user demo_hashpw ''salt3'' juan_id maria
          (serve_all demo_hashpw [Create ''salt1'' juan_key juan] empty_store)) =
     Inr \<lparr>success = True, statusCode = 200, message = ''Usuario actualizado exitosamente'',
          data = Doc [(''_id'', juan_id), (''name'', ''Maria''), (''email'', ''maria@email.com''),
                      (''hashed_password'', ''salt3$2terces'')],
          count = None\<rparr>"
  by (subst served_juan)
     (simp add: update_user_def is_valid_juan_id ObjectId_juan_id find_one_def
      update_one_def log_def by_id_def by_email_ne_id_def juan_doc_def maria_def
      with_hashed_password_def model_dump_def hash_password_def demo_hashpw_def id_to_str_def
      str_oid_juan_key success_response_def Let_def)

theorem update_user_replaces_body_witness:
  "fst (update_user demo_hashpw ''salt3'' juan_id maria
          (serve_all demo_hashpw [Create ''salt1'' juan_key juan] empty_store)) =
     Inr \<lparr>success = True, statusCode = 200, message = ''Usuario actualizado exitosamente'',
          data = Doc [(''_id'', juan_id), (''name'', ''Maria''), (''email'', ''maria@email.com''),
                      (''hashed_password'', ''salt3$2terces'')],
          count = None\<rparr> \<and>
   (\<exists>h. demo_hashpw (password maria) ''salt3'' = Some h \<and>
        List.find (by_id (ObjectId juan_id))
          (users (snd (update_user demo_hashpw ''salt3'' juan_id maria
             (serve_all demo_hashpw [Create ''salt1'' juan_key juan] empty_store)))) =
          Some (ObjectId juan_id,
                [(''name'', name maria), (''email'', email maria), (''hashed_password'', h)])) \<and>
   map fst (users (snd (update_user demo_hashpw ''salt3'' juan_id maria
      (serve_all demo_hashpw [Create ''salt1'' juan_key juan] empty_store)))) =
     map fst (users (serve_all demo_hashpw [Create ''salt1'' juan_key juan] empty_store))"
  using update_user_replaces_body [OF refl update_served_juan] update_served_juan
  by blast


section \<open>Delete\<close>

text \<open>
  C7. In a collection with unique \<open>_id\<close>s, Delete of an identifier whose document exists
  succeeds with status 200 and \<open>deleted_count\<close> 1, and the document is removed. On the
  store it leaves, Delete, Get and Update of the same identifier fail with NotFound. If
  other requests removed the document between the existence check and \<open>delete_one\<close>, the
  route still answers with success, \<open>deleted_count\<close> being 0.
\<close>

theorem delete_user_once:
  assumes "unique_ids (users w)"
    and "is_valid user_id"
    and "List.find (by_id (ObjectId user_id)) (users w) = Some x"
  shows "delete_user user_id w =
           (Inr (success_response (Counts [(''deleted_count'', 1)])
                   ''Usuario eliminado exitosamente'' 200),
            \<lparr>users = remove1 x (users w), trace = trace w @ [FindOne, DeleteOne]\<rparr>) \<and>
         x \<notin> set (users (snd (delete_user user_id w))) \<and>
         fst (delete_user user_id (snd (delete_user user_id w))) =
           Inl (Raised (NotFoundException ''Usuario'' (Some user_id))) \<and>
         fst (get_user user_id (snd (delete_user user_id w))) =
           Inl (Raised (NotFoundException ''Usuario'' (Some user_id))) \<and>
         fst (update_user bcrypt salt user_id u (snd (delete_user user_id w))) =
           Inl (Raised (NotFoundException ''Usuario'' (Some user_id))) \<and>
         (List.find (by_id (ObjectId user_id)) (others (users w)) = None \<longrightarrow>
            fst (delete_user_among others user_id w) =
              Inr (success_response (Counts [(''deleted_count'', 0)])
                     ''Usuario eliminado exitosamente'' 200))"
proof -
  let ?K = "ObjectId user_id"
  let ?w' = "snd (delete_user user_id w)"
  from assms(1) have dist: "distinct (map fst (users w))" by (simp add: unique_ids_def)
  have 1: "delete_user user_id w =
           (Inr (success_response (Counts [(''deleted_count'', 1)])
                   ''Usuario eliminado exitosamente'' 200),
            \<lparr>users = remove1 x (users w), trace = trace w @ [FindOne, DeleteOne]\<rparr>)"
    using assms(3) delete_first_remove1 [OF assms(3)]
    by (simp add: delete_user_def delete_user_among_ok [OF assms(2) assms(3)])
  have us: "users ?w' = delete_first (by_id ?K) (users w)"
    using assms(3) by (simp add: delete_user_def delete_user_among_ok [OF assms(2) assms(3)])
  have gone: "List.find (by_id ?K) (users ?w') = None"
    using find_delete_first_by_id [OF dist, of ?K] by (simp add: us)
  from dist have "distinct (users w)" by (simp add: distinct_map)
  then have 2: "x \<notin> set (users ?w')" by (simp add: 1)
  have 3: "fst (delete_user user_id ?w') =
           Inl (Raised (NotFoundException ''Usuario'' (Some user_id)))"
    by (simp add: delete_user_not_found [OF assms(2) gone])
  have 4: "fst (get_user user_id ?w') =
           Inl (Raised (NotFoundException ''Usuario'' (Some user_id)))"
    by (simp add: get_user_not_found [OF assms(2) gone])
  have 5: "fst (update_user bcrypt salt user_id u ?w') =
           Inl (Raised (NotFoundException ''Usuario'' (Some user_id)))"
    by (simp add: update_user_not_found [OF assms(2) gone])
  have 6: "List.find (by_id ?K) (others (users w)) = None \<longrightarrow>
            fst (delete_user_among others user_id w) =
              Inr (success_response (Counts [(''deleted_count'', 0)])
                     ''Usuario eliminado exitosamente'' 200)"
    by (simp add: delete_user_among_ok [OF assms(2) assms(3)])
  show ?thesis by (rule conjI [OF 1 conjI [OF 2 conjI [OF 3 conjI [OF 4 conjI [OF 5 6]]]]])
qed

lemma two_users_unique: "unique_ids (users two_users)"
  using keys_differ by (simp add: unique_ids_def two_users_def)

lemma find_after_removal:
  "List.find (by_id (ObjectId juan_id))
     (delete_first (by_id juan_key) (users two_users)) = None"
  using keys_differ by (simp add: ObjectId_juan_id two_users_def by_id_def)

theorem delete_user_once_witness:
  "unique_ids (users two_users) \<and> is_valid juan_id \<and>
   List.find (by_id (ObjectId juan_id)) (users two_users) = Some (juan_key, juan_doc) \<and>
   delete_user juan_id two_users =
     (Inr (success_response (Counts [(''deleted_count'', 1)])
             ''Usuario eliminado exitosamente'' 200),
      \<lparr>users = remove1 (juan_key, juan_doc) (users two_users),
       trace = trace two_users @ [FindOne, DeleteOne]\<rparr>) \<and>
   fst (delete_user juan_id (snd (delete_user juan_id two_users))) =
     Inl (Raised (NotFoundException ''Usuario'' (Some juan_id))) \<and>
   fst (delete_user_among (delete_first (by_id juan_key)) juan_id two_users) =
     Inr (success_response (Counts [(''deleted_count'', 0)])
            ''Usuario eliminado exitosamente'' 200)"
  using delete_user_once [OF two_users_unique is_valid_juan_id find_juan_two_users,
      of demo_hashpw "''salt3''" maria "delete_first (by_id juan_key)"]
    two_users_unique is_valid_juan_id find_juan_two_users find_after_removal
  by blast


section \<open>Classified errors\<close>

text \<open>
  C8, as the code has it. A bad request has status 400, AlreadyExists 409, NotFound 404.
  Each carries its message and, where they are given and not empty, \<open>resource\<close> and
  \<open>identifier\<close>, which \<open>detail\<close> and the error envelope's \<open>data\<close> repeat verbatim. The
  AlreadyExists that Create raises has the resource \<open>Usuario\<close> and the identifier
  \<open>email\<close>, a space, and the conflicting email.
\<close>

theorem classified_errors:
  "status_code (BadRequestException m r i) = 400 \<and>
   status_code (AlreadyExistsException res i) = 409 \<and>
   status_code (NotFoundException res i) = 404 \<and>
   (res \<noteq> [] \<and> ident \<noteq> [] \<longrightarrow>
      build_detail (NotFoundException res (Some ident)) =
        [(''message'', res @ '' no encontrado con identificador: '' @ ident),
         (''resource'', res), (''identifier'', ident)] \<and>
      build_detail (AlreadyExistsException res (Some ident)) =
        [(''message'', res @ '' ya existe con: '' @ ident),
         (''resource'', res), (''identifier'', ident)] \<and>
      build_detail (BadRequestException m None (Some ident)) =
        [(''message'', m), (''identifier'', ident)] \<and>
      error_envelope (NotFoundException res (Some ident)) =
        \<lparr>success = False, statusCode = 404,
         message = res @ '' no encontrado con identificador: '' @ ident,
         data = Doc [(''resource'', res), (''identifier'', ident)], count = None\<rparr> \<and>
      error_envelope (AlreadyExistsException res (Some ident)) =
        \<lparr>success = False, statusCode = 409,
         message = res @ '' ya existe con: '' @ ident,
         data = Doc [(''resource'', res), (''identifier'', ident)], count = None\<rparr> \<and>
      error_envelope (BadRequestException m None (Some ident)) =
        \<lparr>success = False, statusCode = 400, message = m,
         data = Doc [(''identifier'', ident)], count = None\<rparr>) \<and>
   (email u \<in> set (emails (users w)) \<longrightarrow>
      fst (create_user bcrypt salt k u w) =
        Inl (Raised \<lparr>status_code = 409,
                     exc_message = ''Usuario ya existe con: email '' @ email u,
                     resource = Some ''Usuario'',
                     exc_identifier = Some (''email '' @ email u)\<rparr>))"
proof -
  have a: "status_code (BadRequestException m r i) = 400"
    by (simp add: BadRequestException_def CustomHTTPException_def)
  have b: "status_code (AlreadyExistsException res i) = 409"
    by (simp add: AlreadyExistsException_def CustomHTTPException_def)
  have c: "status_code (NotFoundException res i) = 404"
    by (simp add: NotFoundException_def CustomHTTPException_def)
  have d: "res \<noteq> [] \<and> ident \<noteq> [] \<longrightarrow>
      build_detail (NotFoundException res (Some ident)) =
        [(''message'', res @ '' no encontrado con identificador: '' @ ident),
         (''resource'', res), (''identifier'', ident)] \<and>
      build_detail (AlreadyExistsException res (Some ident)) =
        [(''message'', res @ '' ya existe con: '' @ ident),
         (''resource'', res), (''identifier'', ident)] \<and>
      build_detail (BadRequestException m None (Some ident)) =
        [(''message'', m), (''identifier'', ident)] \<and>
      error_envelope (NotFoundException res (Some ident)) =
        \<lparr>success = False, statusCode = 404,
         message = res @ '' no encontrado con identificador: '' @ ident,
         data = Doc [(''resource'', res), (''identifier'', ident)], count = None\<rparr> \<and>
      error_envelope (AlreadyExistsException res (Some ident)) =
        \<lparr>success = False, statusCode = 409,
         message = res @ '' ya existe con: '' @ ident,
         data = Doc [(''resource'', res), (''identifier'', ident)], count = None\<rparr> \<and>
      error_envelope (BadRequestException m None (Some ident)) =
        \<lparr>success = False, statusCode = 400, message = m,
         data = Doc [(''identifier'', ident)], count = None\<rparr>"
    by (simp add: build_detail_def error_envelope_def context_def NotFoundException_def
        AlreadyExistsException_def BadRequestException_def CustomHTTPException_def)
  have e: "email u \<in> set (emails (users w)) \<longrightarrow>
      fst (create_user bcrypt salt k u w) =
        Inl (Raised \<lparr>status_code = 409,
                     exc_message = ''Usuario ya existe con: email '' @ email u,
                     resource = Some ''Usuario'',
                     exc_identifier = Some (''email '' @ email u)\<rparr>)"
    by (simp add: create_user_conflict AlreadyExistsException_def CustomHTTPException_def)
  show ?thesis by (rule conjI [OF a conjI [OF b conjI [OF c conjI [OF d e]]]])
qed

theorem classified_errors_witness:
  "''Usuario'' \<noteq> [] \<and> ''123abc'' \<noteq> [] \<and>
   build_detail (NotFoundException ''Usuario'' (Some ''123abc'')) =
     [(''message'', ''Usuario'' @ '' no encontrado con identificador: '' @ ''123abc''),
      (''resource'', ''Usuario''), (''identifier'', ''123abc'')] \<and>
   error_envelope (NotFoundException ''Usuario'' (Some ''123abc'')) =
     \<lparr>success = False, statusCode = 404,
      message = ''Usuario'' @ '' no encontrado con identificador: '' @ ''123abc'',
      data = Doc [(''resource'', ''Usuario''), (''identifier'', ''123abc'')], count = None\<rparr> \<and>
   email juan \<in> set (emails (users one_user)) \<and>
   fst (create_user demo_hashpw ''salt2'' maria_key juan one_user) =
     Inl (Raised \<lparr>status_code = 409,
                  exc_message = ''Usuario ya existe con: email '' @ email juan,
                  resource = Some ''Usuario'',
                  exc_identifier = Some (''email '' @ email juan)\<rparr>)"
proof -
  have ne: "''Usuario'' \<noteq> [] \<and> ''123abc'' \<noteq> []" by simp
  from classified_errors [where m = invalid_id_message and r = None and i = None
      and res = "''Usuario''" and ident = "''123abc''" and u = juan and w = one_user
      and bcrypt = demo_hashpw and salt = "''salt2''" and k = maria_key] ne juan_email_held
  show ?thesis by blast
qed

text \<open>
  C8 as stated fails in its last part: the AlreadyExists of Create has the resource
  \<open>Usuario\<close>, not \<open>User\<close>, and its identifier is not the conflicting email but that email
  after the word \<open>email\<close>.
\<close>

theorem create_conflict_context:
  "fst (create_user demo_hashpw ''salt2'' maria_key juan one_user) =
     Inl (Raised \<lparr>status_code = 409,
                  exc_message = ''Usuario ya existe con: email juan@email.com'',
                  resource = Some ''Usuario'',
                  exc_identifier = Some ''email juan@email.com''\<rparr>) \<and>
   ''Usuario'' \<noteq> ''User'' \<and> ''email juan@email.com'' \<noteq> email juan"
proof -
  have "fst (create_user demo_hashpw ''salt2'' maria_key juan one_user) =
          Inl (Raised (AlreadyExistsException ''Usuario'' (Some (''email '' @ email juan))))"
    by (simp add: create_user_conflict [OF juan_email_held])
  moreover have "email juan = ''juan@email.com''" by (simp add: juan_def)
  ultimately show ?thesis
    by (simp add: AlreadyExistsException_def CustomHTTPException_def)
qed

end
